theory Spec2Isabelle
  imports Main "HOL-Library.Word"
begin

section \<open>The profile settings page: data model\<close>

text \<open>
  The component under verification is \<^verbatim>\<open>ProfileSettings\<close> of
  \<^verbatim>\<open>src/app/dashboard/profile/page.tsx\<close>, with its two asynchronous operations
  \<^verbatim>\<open>fetchProfile\<close> (load) and \<^verbatim>\<open>updateProfile\<close> (save).

  A JavaScript string is a sequence of UTF-16 code units and \<^verbatim>\<open>.length\<close> counts
  them, so a string is a list of 16-bit words. \<open>lit\<close> embeds the ASCII literals of the
  source.
\<close>

type_synonym jsstring = "16 word list"

definition lit :: "string \<Rightarrow> jsstring" where
  "lit s = map of_char s"

text \<open>
  \<^verbatim>\<open>interface Profile\<close>: \<^verbatim>\<open>id\<close> is required, the other four fields are optional
  (\<open>None\<close> stands for an absent, \<^verbatim>\<open>undefined\<close> or \<^verbatim>\<open>null\<close> field). The field
  \<^verbatim>\<open>id\<close> is named \<open>id_prof\<close>, since \<open>id\<close> is the identity function of HOL.
\<close>

record Profile =
  id_prof :: jsstring
  full_name :: "jsstring option"
  username :: "jsstring option"
  website :: "jsstring option"
  bio :: "jsstring option"

text \<open>The object literal passed to \<^verbatim>\<open>upsert\<close>: the five profile fields and \<^verbatim>\<open>updated_at\<close>.\<close>

record upsert_row = Profile +
  updated_at :: jsstring

text \<open>The authenticated user, of which the page reads \<^verbatim>\<open>user.id\<close> only.\<close>

record User =
  user_id :: jsstring

text \<open>
  The \<^verbatim>\<open>error\<close> member of a backend response. The client library is not part of the
  repository: its declared type gives the error a \<^verbatim>\<open>code\<close> and a \<^verbatim>\<open>message\<close>, and
  whether the object is an instance of \<^verbatim>\<open>Error\<close> is a property of the object that
  the handler of \<^verbatim>\<open>updateProfile\<close> tests.
\<close>

record backend_error =
  code :: jsstring
  message :: jsstring
  instanceof_Error :: bool

text \<open>
  The values that reach a \<^verbatim>\<open>catch\<close> clause: an error made by \<^verbatim>\<open>new Error(msg)\<close>, a
  backend error object thrown as it is (\<^verbatim>\<open>throw error\<close>), or the rejection value of an
  awaited promise, of which the handler can observe whether it is an instance of
  \<^verbatim>\<open>Error\<close> and, if so, its message (\<open>Some msg\<close>; \<open>None\<close> is any other value).
\<close>

datatype js_thrown =
    NewError jsstring
  | ThrownBackendError backend_error
  | Rejection "jsstring option"

text \<open>The outcome of \<^verbatim>\<open>await\<close>: the promise resolves with a value or rejects.\<close>

datatype 'a awaited = Resolved 'a | Rejected "jsstring option"

text \<open>
  The responses of the client: \<^verbatim>\<open>{ data: { user }, error }\<close> of \<^verbatim>\<open>auth.getUser()\<close>,
  \<^verbatim>\<open>{ data, error }\<close> of the \<^verbatim>\<open>select('*')...single()\<close> query and \<^verbatim>\<open>{ error }\<close> of
  \<^verbatim>\<open>upsert\<close>. \<open>None\<close> is \<^verbatim>\<open>null\<close>. The client reports a failure of the identity fetch
  in the \<^verbatim>\<open>error\<close> member of its response, as it does for the queries; the page reads
  \<^verbatim>\<open>data.user\<close> only, so of that error nothing but its message is kept.
\<close>

record AuthError =
  auth_message :: jsstring

record user_response =
  data_user :: "User option"
  auth_error :: "AuthError option"

record select_response =
  data :: "Profile option"
  select_error :: "backend_error option"

record upsert_response =
  upsert_error :: "backend_error option"

text \<open>
  The collaborators of the page, as the answers they give: the session provider, the
  \<^verbatim>\<open>profiles\<close> table queried by id, the upsert of a row, and the clock read by
  \<^verbatim>\<open>new Date().toISOString()\<close>.
\<close>

record Env =
  getUser :: "user_response awaited"
  select_single :: "jsstring \<Rightarrow> select_response awaited"
  upsert :: "upsert_row \<Rightarrow> upsert_response awaited"
  now :: jsstring

text \<open>
  The client library is not part of the repository. Its \<^verbatim>\<open>.single()\<close>, which ends the
  query of line 36, is modelled by its documented contract: the result must be exactly
  one row, which becomes \<^verbatim>\<open>data\<close>; for no row, or several, the answer has no data and
  the error of code \<^verbatim>\<open>PGRST116\<close>, a plain object parsed from the response body.
\<close>

definition no_single_row :: backend_error where
  "no_single_row =
     \<lparr>code = lit ''PGRST116'',
      message = lit ''JSON object requested, multiple (or no) rows returned'',
      instanceof_Error = False\<rparr>"

definition single :: "Profile list \<Rightarrow> select_response" where
  "single rows =
     (case rows of
        [row] \<Rightarrow> \<lparr>data = Some row, select_error = None\<rparr>
      | _ \<Rightarrow> \<lparr>data = None, select_error = Some no_single_row\<rparr>)"

text \<open>
  The query \<^verbatim>\<open>from('profiles').select('*').eq('id', i).single()\<close> against a reachable
  \<^verbatim>\<open>profiles\<close> table holding the rows \<open>table\<close>.
\<close>

definition query_profile :: "Profile list \<Rightarrow> jsstring \<Rightarrow> select_response awaited" where
  "query_profile table i = Resolved (single (filter (\<lambda>row. id_prof row = i) table))"

text \<open>The five \<^verbatim>\<open>useState\<close> cells of the component, and their initial values.\<close>

record State =
  profile :: "Profile option"
  isLoading :: bool
  isSaving :: bool
  error :: "jsstring option"
  successMessage :: "jsstring option"

definition initial_State :: State where
  "initial_State =
     \<lparr>profile = None, isLoading = True, isSaving = False, error = None,
      successMessage = None\<rparr>"

text \<open>The calls the operations make on their collaborators, in the order they are made.\<close>

datatype effect =
    PreventDefault
  | Auth_getUser
  | Select_profile jsstring
  | Upsert upsert_row
  | Router_push jsstring
  | Router_refresh
  | Console_error js_thrown

text \<open>
  How a block of statements completes: it runs to its end, leaves the function by
  \<^verbatim>\<open>return\<close>, or throws. A function whose completion is \<open>Throw\<close> lets the
  exception escape to its caller.
\<close>

datatype completion = Normal | Return | Throw js_thrown

type_synonym outcome = "completion \<times> State \<times> effect list"

section \<open>Load: \<^verbatim>\<open>fetchProfile\<close>\<close>

text \<open>The record \<^verbatim>\<open>{ id: user.id }\<close>.\<close>

definition fresh_profile :: "jsstring \<Rightarrow> Profile" where
  "fresh_profile i =
     \<lparr>id_prof = i, full_name = None, username = None, website = None, bio = None\<rparr>"

text \<open>
  The \<^verbatim>\<open>try\<close> block of \<^verbatim>\<open>fetchProfile\<close> (lines 26 to 39). Line 26 destructures
  \<^verbatim>\<open>data.user\<close> and does not read the \<^verbatim>\<open>error\<close> member of the identity response.
\<close>

definition fetchProfile_try :: "Env \<Rightarrow> State \<Rightarrow> outcome" where
  "fetchProfile_try env s =
     (case getUser env of
        Rejected x \<Rightarrow> (Throw (Rejection x), s, [Auth_getUser])
      | Resolved a \<Rightarrow>
          (case data_user a of
             None \<Rightarrow> (Return, s, [Auth_getUser, Router_push (lit ''/auth'')])
           | Some u \<Rightarrow>
               (case select_single env (user_id u) of
                  Rejected x \<Rightarrow>
                    (Throw (Rejection x), s, [Auth_getUser, Select_profile (user_id u)])
                | Resolved r \<Rightarrow>
                    (case select_error r of
                       Some e \<Rightarrow>
                         (Throw (ThrownBackendError e), s,
                          [Auth_getUser, Select_profile (user_id u)])
                     | None \<Rightarrow>
                         (Normal,
                          s\<lparr>profile :=
                              Some (case data r of
                                      Some d \<Rightarrow> d
                                    | None \<Rightarrow> fresh_profile (user_id u))\<rparr>,
                          [Auth_getUser, Select_profile (user_id u)])))))"

text \<open>The \<^verbatim>\<open>catch\<close> clause of \<^verbatim>\<open>fetchProfile\<close> (lines 40 to 42).\<close>

definition fetchProfile_catch :: "outcome \<Rightarrow> outcome" where
  "fetchProfile_catch r =
     (case r of
        (Throw x, s, log) \<Rightarrow>
          (Normal, s\<lparr>error := Some (lit ''Failed to load profile'')\<rparr>,
           log @ [Console_error x])
      | (c, s, log) \<Rightarrow> (c, s, log))"

text \<open>
  The \<^verbatim>\<open>finally\<close> clause of \<^verbatim>\<open>fetchProfile\<close> (line 44): it runs whatever the
  completion is, and keeps it.
\<close>

definition fetchProfile_finally :: "outcome \<Rightarrow> outcome" where
  "fetchProfile_finally r =
     (case r of (c, s, log) \<Rightarrow> (c, s\<lparr>isLoading := False\<rparr>, log))"

definition fetchProfile :: "Env \<Rightarrow> State \<Rightarrow> outcome" where
  "fetchProfile env s =
     fetchProfile_finally (fetchProfile_catch (fetchProfile_try env s))"

section \<open>Save: \<^verbatim>\<open>updateProfile\<close>\<close>

text \<open>
  The test \<^verbatim>\<open>profile.username && profile.username.length < 3\<close> (line 62): the left
  operand is falsy for an absent username and for the empty string.
\<close>

definition username_too_short :: "Profile \<Rightarrow> bool" where
  "username_too_short p =
     (case username p of
        None \<Rightarrow> False
      | Some u \<Rightarrow> u \<noteq> [] \<and> length u < 3)"

text \<open>The row of lines 68 to 75.\<close>

definition row_of :: "Profile \<Rightarrow> jsstring \<Rightarrow> upsert_row" where
  "row_of p t =
     \<lparr>id_prof = id_prof p, full_name = full_name p, username = username p,
      website = website p, bio = bio p, updated_at = t\<rparr>"

text \<open>The \<^verbatim>\<open>try\<close> block of \<^verbatim>\<open>updateProfile\<close> (lines 61 to 85).\<close>

definition updateProfile_try :: "Env \<Rightarrow> Profile \<Rightarrow> State \<Rightarrow> outcome" where
  "updateProfile_try env p s =
     (if username_too_short p then
        (Throw (NewError (lit ''Username must be at least 3 characters long'')), s, [])
      else
        (case upsert env (row_of p (now env)) of
           Rejected x \<Rightarrow> (Throw (Rejection x), s, [Upsert (row_of p (now env))])
         | Resolved r \<Rightarrow>
             (case upsert_error r of
                Some e \<Rightarrow>
                  (if code e = lit ''23505'' then
                     (Throw (NewError (lit ''Username is already taken'')), s,
                      [Upsert (row_of p (now env))])
                   else
                     (Throw (ThrownBackendError e), s, [Upsert (row_of p (now env))]))
              | None \<Rightarrow>
                  (Normal,
                   s\<lparr>successMessage := Some (lit ''Profile updated successfully'')\<rparr>,
                   [Upsert (row_of p (now env)), Router_refresh]))))"

text \<open>
  The expression \<^verbatim>\<open>err instanceof Error ? err.message : 'Failed to update profile'\<close>
  (line 87).
\<close>

fun catch_message :: "js_thrown \<Rightarrow> jsstring" where
  "catch_message (NewError m) = m"
| "catch_message (ThrownBackendError e) =
     (if instanceof_Error e then message e else lit ''Failed to update profile'')"
| "catch_message (Rejection (Some m)) = m"
| "catch_message (Rejection None) = lit ''Failed to update profile''"

text \<open>The \<^verbatim>\<open>catch\<close> clause (lines 86 and 87) and the \<^verbatim>\<open>finally\<close> clause (line 89).\<close>

definition updateProfile_catch :: "outcome \<Rightarrow> outcome" where
  "updateProfile_catch r =
     (case r of
        (Throw x, s, log) \<Rightarrow> (Normal, s\<lparr>error := Some (catch_message x)\<rparr>, log)
      | (c, s, log) \<Rightarrow> (c, s, log))"

definition updateProfile_finally :: "outcome \<Rightarrow> outcome" where
  "updateProfile_finally r =
     (case r of (c, s, log) \<Rightarrow> (c, s\<lparr>isSaving := False\<rparr>, log))"

text \<open>
  The guard \<^verbatim>\<open>if (!profile?.id) return\<close> (line 54) holds when the profile is
  \<^verbatim>\<open>null\<close> and when its id is the empty string.
\<close>

definition loaded_id :: "State \<Rightarrow> bool" where
  "loaded_id s = (case profile s of None \<Rightarrow> False | Some p \<Rightarrow> id_prof p \<noteq> [])"

definition updateProfile :: "Env \<Rightarrow> State \<Rightarrow> outcome" where
  "updateProfile env s =
     (case profile s of
        None \<Rightarrow> (Return, s, [PreventDefault])
      | Some p \<Rightarrow>
          (if id_prof p = [] then (Return, s, [PreventDefault])
           else
             (case updateProfile_finally
                     (updateProfile_catch
                        (updateProfile_try env p
                           (s\<lparr>isSaving := True, error := None, successMessage := None\<rparr>)))
              of (c, s', log) \<Rightarrow> (c, s', PreventDefault # log))))"

section \<open>The form: field edits and submits\<close>








section \<open>Observations on an outcome\<close>

definition completion_of :: "outcome \<Rightarrow> completion" where
  "completion_of r = fst r"

definition state_of :: "outcome \<Rightarrow> State" where
  "state_of r = fst (snd r)"

definition log_of :: "outcome \<Rightarrow> effect list" where
  "log_of r = snd (snd r)"

text \<open>The rows sent to the backend by the upsert calls of a log: the network writes.\<close>

fun upserts :: "effect list \<Rightarrow> upsert_row list" where
  "upserts [] = []"
| "upserts (Upsert r # es) = r # upserts es"
| "upserts (_ # es) = upserts es"

text \<open>
  The length of the username field as the specification counts it: an absent username
  has length 0, like the empty string.
\<close>

definition username_length :: "Profile \<Rightarrow> nat" where
  "username_length p = (case username p of None \<Rightarrow> 0 | Some u \<Rightarrow> length u)"

text \<open>
  A load fails, in the sense that its \<^verbatim>\<open>try\<close> block throws, when the identity fetch
  rejects, or resolves with a user and the profile fetch then rejects or answers with
  an error.
\<close>

definition load_fails :: "Env \<Rightarrow> bool" where
  "load_fails env =
     (case getUser env of
        Rejected x \<Rightarrow> True
      | Resolved a \<Rightarrow>
          (case data_user a of
             None \<Rightarrow> False
           | Some u \<Rightarrow>
               (case select_single env (user_id u) of
                  Rejected x \<Rightarrow> True
                | Resolved r \<Rightarrow> select_error r \<noteq> None)))"

text \<open>
  The identity fetch or the profile fetch fails with an error, by any channel of the
  client: the promise rejects, or the response carries an \<^verbatim>\<open>error\<close> member.
\<close>

definition identity_fetch_fails :: "Env \<Rightarrow> bool" where
  "identity_fetch_fails env =
     (case getUser env of
        Rejected x \<Rightarrow> True
      | Resolved a \<Rightarrow> auth_error a \<noteq> None)"

definition profile_fetch_fails :: "Env \<Rightarrow> bool" where
  "profile_fetch_fails env =
     (case getUser env of
        Rejected x \<Rightarrow> False
      | Resolved a \<Rightarrow>
          (case data_user a of
             None \<Rightarrow> False
           | Some u \<Rightarrow>
               (case select_single env (user_id u) of
                  Rejected x \<Rightarrow> True
                | Resolved r \<Rightarrow> select_error r \<noteq> None)))"

section \<open>Sample sessions\<close>

text \<open>The signed-in user \<^verbatim>\<open>u1\<close>, as the identity fetch answers.\<close>

definition signed_in_u1 :: "user_response awaited" where
  "signed_in_u1 =
     Resolved \<lparr>data_user = Some \<lparr>user_id = lit ''u1''\<rparr>, auth_error = None\<rparr>"

text \<open>
  The session of user \<^verbatim>\<open>u1\<close>, whose row in the \<^verbatim>\<open>profiles\<close> table holds the id only,
  with a backend that accepts every upsert and a clock that reads \<open>t\<close>.
\<close>

definition accepting_backend :: "jsstring \<Rightarrow> Env" where
  "accepting_backend t =
     \<lparr>getUser = signed_in_u1,
      select_single = query_profile [fresh_profile (lit ''u1'')],
      upsert = (\<lambda>row. Resolved \<lparr>upsert_error = None\<rparr>),
      now = t\<rparr>"

text \<open>
  The session of the specification's scenario: user \<^verbatim>\<open>u1\<close> is signed in and the
  \<^verbatim>\<open>profiles\<close> table, which holds the row of another user, has no row for \<^verbatim>\<open>u1\<close>.
\<close>

definition new_user_backend :: Env where
  "new_user_backend =
     \<lparr>getUser = signed_in_u1,
      select_single = query_profile [fresh_profile (lit ''u2'')],
      upsert = (\<lambda>row. Resolved \<lparr>upsert_error = None\<rparr>),
      now = lit ''2024-01-01T00:00:00.000Z''\<rparr>"

text \<open>
  A session whose identity fetch fails on the network: the client resolves with no user
  and reports the failure in the \<^verbatim>\<open>error\<close> member of the response.
\<close>

definition identity_error_backend :: Env where
  "identity_error_backend =
     \<lparr>getUser =
        Resolved \<lparr>data_user = None,
                  auth_error = Some \<lparr>auth_message = lit ''Failed to fetch''\<rparr>\<rparr>,
      select_single = query_profile [fresh_profile (lit ''u1'')],
      upsert = (\<lambda>row. Resolved \<lparr>upsert_error = None\<rparr>),
      now = lit ''2024-01-01T00:00:00.000Z''\<rparr>"

text \<open>The same session with a backend that answers every upsert with the error \<open>e\<close>.\<close>

definition refusing_backend :: "backend_error \<Rightarrow> Env" where
  "refusing_backend e =
     \<lparr>getUser = signed_in_u1,
      select_single = query_profile [fresh_profile (lit ''u1'')],
      upsert = (\<lambda>row. Resolved \<lparr>upsert_error = Some e\<rparr>),
      now = lit ''2024-01-01T00:00:00.000Z''\<rparr>"

text \<open>A session whose identity fetch rejects with a value that is not an \<^verbatim>\<open>Error\<close>.\<close>

definition offline_backend :: Env where
  "offline_backend =
     \<lparr>getUser = Rejected None,
      select_single = (\<lambda>i. Rejected None),
      upsert = (\<lambda>row. Rejected None),
      now = lit ''2024-01-01T00:00:00.000Z''\<rparr>"

text \<open>The state after a load that found the profile \<open>p\<close>.\<close>

definition ready_State :: "Profile \<Rightarrow> State" where
  "ready_State p =
     \<lparr>profile = Some p, isLoading = False, isSaving = False, error = None,
      successMessage = None\<rparr>"

text \<open>A backend error as the client library parses it from the response: a plain object.\<close>

definition plain_error :: "string \<Rightarrow> string \<Rightarrow> backend_error" where
  "plain_error c m = \<lparr>code = lit c, message = lit m, instanceof_Error = False\<rparr>"

text \<open>A backend error that is an instance of \<^verbatim>\<open>Error\<close>.\<close>

definition error_instance :: "string \<Rightarrow> string \<Rightarrow> backend_error" where
  "error_instance c m = \<lparr>code = lit c, message = lit m, instanceof_Error = True\<rparr>"

text \<open>The profile of user \<^verbatim>\<open>u1\<close> with the username field holding \<open>u\<close>.\<close>

definition u1_profile :: "jsstring option \<Rightarrow> Profile" where
  "u1_profile u = (fresh_profile (lit ''u1''))\<lparr>username := u\<rparr>"

section \<open>The four ways a save attempt ends\<close>

lemmas outcome_defs = completion_of_def state_of_def log_of_def

lemmas updateProfile_defs =
  updateProfile_def updateProfile_try_def updateProfile_catch_def updateProfile_finally_def

lemmas fetchProfile_defs =
  fetchProfile_def fetchProfile_try_def fetchProfile_catch_def fetchProfile_finally_def

lemmas sample_defs =
  accepting_backend_def refusing_backend_def offline_backend_def ready_State_def
  plain_error_def error_instance_def fresh_profile_def initial_State_def u1_profile_def
  signed_in_u1_def new_user_backend_def identity_error_backend_def

lemmas client_defs = query_profile_def single_def no_single_row_def

lemmas eval_defs =
  updateProfile_defs fetchProfile_defs outcome_defs sample_defs row_of_def
  username_too_short_def username_length_def loaded_id_def load_fails_def lit_def
  client_defs identity_fetch_fails_def profile_fetch_fails_def

text \<open>
  With a loaded id, \<^verbatim>\<open>updateProfile\<close> ends in one of four ways, each with its state
  and its log: the username is rejected before any call, the upsert promise rejects,
  the backend answers with an error, or the backend accepts.
\<close>

lemma updateProfile_rejected_validation:
  assumes "profile s = Some p" and "id_prof p \<noteq> []" and "username_too_short p"
  shows "updateProfile env s =
    (Normal,
     s\<lparr>isSaving := False,
       error := Some (lit ''Username must be at least 3 characters long''),
       successMessage := None\<rparr>,
     [PreventDefault])"
  using assms by (simp add: updateProfile_defs)

lemma updateProfile_upsert_rejects:
  assumes "profile s = Some p" and "id_prof p \<noteq> []" and "\<not> username_too_short p"
    and "upsert env (row_of p (now env)) = Rejected x"
  shows "updateProfile env s =
    (Normal,
     s\<lparr>isSaving := False, error := Some (catch_message (Rejection x)),
       successMessage := None\<rparr>,
     [PreventDefault, Upsert (row_of p (now env))])"
  using assms by (simp add: updateProfile_defs)

lemma updateProfile_upsert_error:
  assumes "profile s = Some p" and "id_prof p \<noteq> []" and "\<not> username_too_short p"
    and "upsert env (row_of p (now env)) = Resolved r" and "upsert_error r = Some e"
  shows "updateProfile env s =
    (Normal,
     s\<lparr>isSaving := False,
       error := Some (if code e = lit ''23505'' then lit ''Username is already taken''
                      else catch_message (ThrownBackendError e)),
       successMessage := None\<rparr>,
     [PreventDefault, Upsert (row_of p (now env))])"
  using assms by (simp add: updateProfile_defs)

lemma updateProfile_upsert_ok:
  assumes "profile s = Some p" and "id_prof p \<noteq> []" and "\<not> username_too_short p"
    and "upsert env (row_of p (now env)) = Resolved r" and "upsert_error r = None"
  shows "updateProfile env s =
    (Normal,
     s\<lparr>isSaving := False, error := None,
       successMessage := Some (lit ''Profile updated successfully'')\<rparr>,
     [PreventDefault, Upsert (row_of p (now env)), Router_refresh])"
  using assms by (simp add: updateProfile_defs)

lemma updateProfile_no_id:
  assumes "\<not> loaded_id s"
  shows "updateProfile env s = (Return, s, [PreventDefault])"
  using assms by (simp add: updateProfile_def loaded_id_def split: option.splits)

lemma profile_after_updateProfile:
  "profile (state_of (updateProfile env s)) = profile s"
  by (simp add: updateProfile_defs state_of_def split: option.splits awaited.splits)

text \<open>The local check rejects exactly the usernames of one or two code units.\<close>

lemma short_length: "u \<noteq> [] \<and> length u < 3 \<longleftrightarrow> length u = 1 \<or> length u = 2"
proof -
  have "u \<noteq> [] \<longleftrightarrow> 0 < length u"
    by simp
  then show ?thesis
    by arith
qed

lemma too_short_iff:
  "username_too_short p \<longleftrightarrow> username_length p = 1 \<or> username_length p = 2"
  by (cases "username p")
     (simp_all add: username_too_short_def username_length_def short_length)

text \<open>The upsert is sent exactly when the local check passes, whatever the backend answers.\<close>

lemma upserts_of_attempt:
  assumes "profile s = Some p" and "id_prof p \<noteq> []"
  shows "upserts (log_of (updateProfile env s)) =
     (if username_too_short p then [] else [row_of p (now env)])"
proof (cases "username_too_short p")
  case True
  with assms show ?thesis
    by (simp add: updateProfile_rejected_validation log_of_def)
next
  case False
  show ?thesis
  proof (cases "upsert env (row_of p (now env))")
    case (Rejected x)
    with assms False show ?thesis
      by (simp add: updateProfile_upsert_rejects log_of_def)
  next
    case (Resolved r)
    show ?thesis
    proof (cases "upsert_error r")
      case None
      with assms False Resolved show ?thesis
        by (simp add: updateProfile_upsert_ok log_of_def)
    next
      case (Some e)
      with assms False Resolved show ?thesis
        by (simp add: updateProfile_upsert_error log_of_def)
    qed
  qed
qed

section \<open>Without a profile nothing is written\<close>





text \<open>A load fails, in the sense of \<open>load_fails\<close>, exactly when its \<^verbatim>\<open>try\<close> block throws.\<close>

lemma fetchProfile_try_throws:
  "load_fails env \<longleftrightarrow> (\<exists>x. completion_of (fetchProfile_try env s) = Throw x)"
  by (simp add: load_fails_def fetchProfile_try_def completion_of_def
      split: awaited.splits option.splits)

text \<open>
  The \<^verbatim>\<open>try\<close> block throws for a rejected identity fetch and for every failure of the
  profile fetch, but not for an identity fetch that resolves with an error.
\<close>

lemma load_fails_iff:
  "load_fails env \<longleftrightarrow> (\<exists>x. getUser env = Rejected x) \<or> profile_fetch_fails env"
  by (simp add: load_fails_def profile_fetch_fails_def split: awaited.splits)

lemma identity_error_not_thrown:
  assumes "getUser env = Resolved a" and "data_user a = None"
  shows "\<not> load_fails env"
  using assms by (simp add: load_fails_def)

section \<open>Claims about save: validation, backend errors, success\<close>

text \<open>
  C1, as written, counts an absent or empty username among the rejected ones. The test
  of line 62 is guarded by \<^verbatim>\<open>profile.username &&\<close>, so such a username passes: with
  an accepting backend the save of a profile without username, or with the empty
  username, sets no error message and sends the upsert.
\<close>

theorem C1_counterexample:
  "loaded_id (ready_State (u1_profile None)) \<and>
   username_length (u1_profile None) = 0 \<and>
   error (state_of (updateProfile (accepting_backend (lit ''t1''))
                      (ready_State (u1_profile None)))) = None \<and>
   upserts (log_of (updateProfile (accepting_backend (lit ''t1''))
                      (ready_State (u1_profile None)))) =
     [row_of (u1_profile None) (lit ''t1'')] \<and>
   loaded_id (ready_State (u1_profile (Some []))) \<and>
   username_length (u1_profile (Some [])) = 0 \<and>
   error (state_of (updateProfile (accepting_backend (lit ''t1''))
                      (ready_State (u1_profile (Some []))))) = None \<and>
   upserts (log_of (updateProfile (accepting_backend (lit ''t1''))
                      (ready_State (u1_profile (Some []))))) =
     [row_of (u1_profile (Some [])) (lit ''t1'')]"
  by (simp add: eval_defs)

text \<open>
  C1 (amended). For every save with a loaded profile id: if the username has length 1
  or 2, the save fails locally with the message
  \<^verbatim>\<open>Username must be at least 3 characters long\<close>, sets no success message and sends
  no upsert; if the username is absent, empty or of length at least 3, the local check
  passes and exactly one upsert, of the row built from the profile, is sent.
\<close>

theorem C1_username_validation:
  assumes "profile s = Some p" and "id_prof p \<noteq> []"
  shows "(username_length p = 1 \<or> username_length p = 2 \<longrightarrow>
            error (state_of (updateProfile env s)) =
              Some (lit ''Username must be at least 3 characters long'') \<and>
            successMessage (state_of (updateProfile env s)) = None \<and>
            upserts (log_of (updateProfile env s)) = []) \<and>
         (username_length p = 0 \<or> 3 \<le> username_length p \<longrightarrow>
            upserts (log_of (updateProfile env s)) = [row_of p (now env)])"
proof (intro conjI impI)
  assume "username_length p = 1 \<or> username_length p = 2"
  then have short: "username_too_short p"
    by (simp add: too_short_iff)
  from updateProfile_rejected_validation [OF assms short]
  show "error (state_of (updateProfile env s)) =
          Some (lit ''Username must be at least 3 characters long'')"
    and "successMessage (state_of (updateProfile env s)) = None"
    by (simp_all add: state_of_def)
  from short show "upserts (log_of (updateProfile env s)) = []"
    by (simp add: upserts_of_attempt [OF assms])
next
  assume "username_length p = 0 \<or> 3 \<le> username_length p"
  then have "\<not> username_too_short p"
    by (auto simp: too_short_iff)
  then show "upserts (log_of (updateProfile env s)) = [row_of p (now env)]"
    by (simp add: upserts_of_attempt [OF assms])
qed

text \<open>The amended C1 at the usernames \<^verbatim>\<open>ab\<close> (rejected) and \<^verbatim>\<open>abc\<close> (sent).\<close>

theorem C1_username_validation_witness:
  "profile (ready_State (u1_profile (Some (lit ''ab'')))) =
     Some (u1_profile (Some (lit ''ab''))) \<and>
   id_prof (u1_profile (Some (lit ''ab''))) \<noteq> [] \<and>
   username_length (u1_profile (Some (lit ''ab''))) = 2 \<and>
   error (state_of (updateProfile (accepting_backend (lit ''t1''))
                      (ready_State (u1_profile (Some (lit ''ab'')))))) =
     Some (lit ''Username must be at least 3 characters long'') \<and>
   successMessage (state_of (updateProfile (accepting_backend (lit ''t1''))
                      (ready_State (u1_profile (Some (lit ''ab'')))))) = None \<and>
   upserts (log_of (updateProfile (accepting_backend (lit ''t1''))
                      (ready_State (u1_profile (Some (lit ''ab'')))))) = [] \<and>
   profile (ready_State (u1_profile (Some (lit ''abc'')))) =
     Some (u1_profile (Some (lit ''abc''))) \<and>
   id_prof (u1_profile (Some (lit ''abc''))) \<noteq> [] \<and>
   username_length (u1_profile (Some (lit ''abc''))) = 3 \<and>
   upserts (log_of (updateProfile (accepting_backend (lit ''t1''))
                      (ready_State (u1_profile (Some (lit ''abc'')))))) =
     [row_of (u1_profile (Some (lit ''abc''))) (lit ''t1'')]"
proof -
  have ab: "profile (ready_State (u1_profile (Some (lit ''ab'')))) =
              Some (u1_profile (Some (lit ''ab'')))"
    and ab_id: "id_prof (u1_profile (Some (lit ''ab''))) \<noteq> []"
    and ab_len: "username_length (u1_profile (Some (lit ''ab''))) = 2"
    by (simp_all add: sample_defs username_length_def lit_def)
  have abc: "profile (ready_State (u1_profile (Some (lit ''abc'')))) =
               Some (u1_profile (Some (lit ''abc'')))"
    and abc_id: "id_prof (u1_profile (Some (lit ''abc''))) \<noteq> []"
    and abc_len: "username_length (u1_profile (Some (lit ''abc''))) = 3"
    by (simp_all add: sample_defs username_length_def lit_def)
  from C1_username_validation [OF ab ab_id, of "accepting_backend (lit ''t1'')"]
    C1_username_validation [OF abc abc_id, of "accepting_backend (lit ''t1'')"]
    ab ab_id ab_len abc abc_id abc_len
  show ?thesis
    by (simp add: accepting_backend_def)
qed

text \<open>
  C3. For every save that reaches the backend (a loaded id, a username that passes the
  local check) and whose upsert answers with an error of code \<^verbatim>\<open>23505\<close>, the error
  message is exactly \<^verbatim>\<open>Username is already taken\<close> and the success message stays
  unset.
\<close>

theorem C3_username_taken:
  assumes "profile s = Some p" and "id_prof p \<noteq> []" and "\<not> username_too_short p"
    and "upsert env (row_of p (now env)) = Resolved r"
    and "upsert_error r = Some e" and "code e = lit ''23505''"
  shows "error (state_of (updateProfile env s)) = Some (lit ''Username is already taken'') \<and>
         successMessage (state_of (updateProfile env s)) = None"
  using assms(6)
  by (simp add: updateProfile_upsert_error [OF assms(1-5)] state_of_def)

text \<open>C3 at the username \<^verbatim>\<open>abc\<close>, against a backend that reports the duplicate key.\<close>

theorem C3_username_taken_witness:
  "profile (ready_State (u1_profile (Some (lit ''abc'')))) =
     Some (u1_profile (Some (lit ''abc''))) \<and>
   id_prof (u1_profile (Some (lit ''abc''))) \<noteq> [] \<and>
   \<not> username_too_short (u1_profile (Some (lit ''abc''))) \<and>
   code (plain_error ''23505'' ''duplicate key value'') = lit ''23505'' \<and>
   error (state_of (updateProfile
                      (refusing_backend (plain_error ''23505'' ''duplicate key value''))
                      (ready_State (u1_profile (Some (lit ''abc'')))))) =
     Some (lit ''Username is already taken'') \<and>
   successMessage (state_of (updateProfile
                      (refusing_backend (plain_error ''23505'' ''duplicate key value''))
                      (ready_State (u1_profile (Some (lit ''abc'')))))) = None"
proof -
  let ?e = "plain_error ''23505'' ''duplicate key value''"
  let ?p = "u1_profile (Some (lit ''abc''))"
  have h1: "profile (ready_State ?p) = Some ?p"
    and h2: "id_prof ?p \<noteq> []"
    and h3: "\<not> username_too_short ?p"
    and h4: "upsert (refusing_backend ?e) (row_of ?p (now (refusing_backend ?e))) =
               Resolved \<lparr>upsert_error = Some ?e\<rparr>"
    and h5: "upsert_error \<lparr>upsert_error = Some ?e\<rparr> = Some ?e"
    and h6: "code ?e = lit ''23505''"
    by (simp_all add: sample_defs username_too_short_def lit_def)
  from C3_username_taken [OF h1 h2 h3 h4 h5 h6] h1 h2 h3 h6 show ?thesis
    by simp
qed

text \<open>
  C4. For every save that passes the local check and whose upsert succeeds, the error
  message is \<^verbatim>\<open>null\<close>, the success message is set, and after the upsert the refresh
  of the current route is requested.
\<close>

theorem C4_save_success:
  assumes "profile s = Some p" and "id_prof p \<noteq> []" and "\<not> username_too_short p"
    and "upsert env (row_of p (now env)) = Resolved r" and "upsert_error r = None"
  shows "error (state_of (updateProfile env s)) = None \<and>
         successMessage (state_of (updateProfile env s)) =
           Some (lit ''Profile updated successfully'') \<and>
         log_of (updateProfile env s) =
           [PreventDefault, Upsert (row_of p (now env)), Router_refresh]"
  by (simp add: updateProfile_upsert_ok [OF assms] outcome_defs)

text \<open>C4 at the username \<^verbatim>\<open>abc\<close>, against the accepting backend.\<close>

theorem C4_save_success_witness:
  "profile (ready_State (u1_profile (Some (lit ''abc'')))) =
     Some (u1_profile (Some (lit ''abc''))) \<and>
   id_prof (u1_profile (Some (lit ''abc''))) \<noteq> [] \<and>
   \<not> username_too_short (u1_profile (Some (lit ''abc''))) \<and>
   error (state_of (updateProfile (accepting_backend (lit ''t1''))
                      (ready_State (u1_profile (Some (lit ''abc'')))))) = None \<and>
   successMessage (state_of (updateProfile (accepting_backend (lit ''t1''))
                      (ready_State (u1_profile (Some (lit ''abc'')))))) =
     Some (lit ''Profile updated successfully'') \<and>
   log_of (updateProfile (accepting_backend (lit ''t1''))
             (ready_State (u1_profile (Some (lit ''abc''))))) =
     [PreventDefault, Upsert (row_of (u1_profile (Some (lit ''abc''))) (lit ''t1'')),
      Router_refresh]"
proof -
  let ?env = "accepting_backend (lit ''t1'')"
  let ?p = "u1_profile (Some (lit ''abc''))"
  have h1: "profile (ready_State ?p) = Some ?p"
    and h2: "id_prof ?p \<noteq> []"
    and h3: "\<not> username_too_short ?p"
    and h4: "upsert ?env (row_of ?p (now ?env)) = Resolved \<lparr>upsert_error = None\<rparr>"
    and h5: "upsert_error \<lparr>upsert_error = None\<rparr> = None"
    and t: "now ?env = lit ''t1''"
    by (simp_all add: sample_defs username_too_short_def lit_def)
  from C4_save_success [OF h1 h2 h3 h4 h5] h1 h2 h3 t show ?thesis
    by simp
qed

text \<open>
  C6, as written, promises the backend's message whenever the error has one. The
  handler of line 87 shows \<^verbatim>\<open>err.message\<close> only when \<^verbatim>\<open>err instanceof Error\<close>: an
  error object that is not an instance of \<^verbatim>\<open>Error\<close>, such as a parsed response body
  with code \<^verbatim>\<open>42501\<close> and message \<^verbatim>\<open>permission denied\<close>, yields the generic message.
\<close>

theorem C6_counterexample:
  "loaded_id (ready_State (u1_profile (Some (lit ''abc'')))) \<and>
   \<not> username_too_short (u1_profile (Some (lit ''abc''))) \<and>
   code (plain_error ''42501'' ''permission denied'') \<noteq> lit ''23505'' \<and>
   message (plain_error ''42501'' ''permission denied'') = lit ''permission denied'' \<and>
   error (state_of (updateProfile
                      (refusing_backend (plain_error ''42501'' ''permission denied''))
                      (ready_State (u1_profile (Some (lit ''abc'')))))) =
     Some (lit ''Failed to update profile'') \<and>
   lit ''Failed to update profile'' \<noteq> lit ''permission denied''"
  by (simp add: eval_defs)

text \<open>
  C6 (amended). For every save whose upsert answers with an error of a code other than
  \<^verbatim>\<open>23505\<close>, the error message equals the backend error's message when the error
  object is an instance of \<^verbatim>\<open>Error\<close>, and otherwise equals
  \<^verbatim>\<open>Failed to update profile\<close>; the success message stays unset.
\<close>

theorem C6_other_backend_error:
  assumes "profile s = Some p" and "id_prof p \<noteq> []" and "\<not> username_too_short p"
    and "upsert env (row_of p (now env)) = Resolved r"
    and "upsert_error r = Some e" and "code e \<noteq> lit ''23505''"
  shows "error (state_of (updateProfile env s)) =
           Some (if instanceof_Error e then message e
                 else lit ''Failed to update profile'') \<and>
         successMessage (state_of (updateProfile env s)) = None"
  using assms(6)
  by (simp add: updateProfile_upsert_error [OF assms(1-5)] state_of_def)

text \<open>The amended C6 at an error of code \<^verbatim>\<open>42501\<close> that is an instance of \<^verbatim>\<open>Error\<close>.\<close>

theorem C6_other_backend_error_witness:
  "profile (ready_State (u1_profile (Some (lit ''abc'')))) =
     Some (u1_profile (Some (lit ''abc''))) \<and>
   id_prof (u1_profile (Some (lit ''abc''))) \<noteq> [] \<and>
   \<not> username_too_short (u1_profile (Some (lit ''abc''))) \<and>
   code (error_instance ''42501'' ''permission denied'') \<noteq> lit ''23505'' \<and>
   error (state_of (updateProfile
                      (refusing_backend (error_instance ''42501'' ''permission denied''))
                      (ready_State (u1_profile (Some (lit ''abc'')))))) =
     Some (lit ''permission denied'') \<and>
   successMessage (state_of (updateProfile
                      (refusing_backend (error_instance ''42501'' ''permission denied''))
                      (ready_State (u1_profile (Some (lit ''abc'')))))) = None"
proof -
  let ?e = "error_instance ''42501'' ''permission denied''"
  let ?p = "u1_profile (Some (lit ''abc''))"
  have h1: "profile (ready_State ?p) = Some ?p"
    and h2: "id_prof ?p \<noteq> []"
    and h3: "\<not> username_too_short ?p"
    and h4: "upsert (refusing_backend ?e) (row_of ?p (now (refusing_backend ?e))) =
               Resolved \<lparr>upsert_error = Some ?e\<rparr>"
    and h5: "upsert_error \<lparr>upsert_error = Some ?e\<rparr> = Some ?e"
    and h6: "code ?e \<noteq> lit ''23505''"
    by (simp_all add: sample_defs username_too_short_def lit_def)
  have m: "instanceof_Error ?e" "message ?e = lit ''permission denied''"
    by (simp_all add: error_instance_def)
  from C6_other_backend_error [OF h1 h2 h3 h4 h5 h6] h1 h2 h3 h6 m show ?thesis
    by simp
qed

section \<open>Claims about save: the guard, repetition, the two messages\<close>

text \<open>
  C7. For every save in a state without a loaded profile id (the profile is
  \<^verbatim>\<open>null\<close>, or its id is empty), the operation returns at once: it sends no upsert,
  its only call is \<^verbatim>\<open>e.preventDefault()\<close>, and the whole component state (profile,
  error message, success message, saving flag, loading flag) is unchanged.
\<close>

theorem C7_save_without_id:
  assumes "\<not> loaded_id s"
  shows "completion_of (updateProfile env s) = Return \<and>
         state_of (updateProfile env s) = s \<and>
         log_of (updateProfile env s) = [PreventDefault] \<and>
         upserts (log_of (updateProfile env s)) = []"
  by (simp add: updateProfile_no_id [OF assms] outcome_defs)

text \<open>C7 at the initial state, and at a profile whose id is the empty string.\<close>

theorem C7_save_without_id_witness:
  "\<not> loaded_id initial_State \<and>
   updateProfile (accepting_backend (lit ''t1'')) initial_State =
     (Return, initial_State, [PreventDefault]) \<and>
   \<not> loaded_id (ready_State (fresh_profile [])) \<and>
   updateProfile (accepting_backend (lit ''t1'')) (ready_State (fresh_profile [])) =
     (Return, ready_State (fresh_profile []), [PreventDefault])"
proof -
  have h: "\<not> loaded_id initial_State" and h': "\<not> loaded_id (ready_State (fresh_profile []))"
    by (simp_all add: loaded_id_def initial_State_def ready_State_def fresh_profile_def)
  from C7_save_without_id [OF h, of "accepting_backend (lit ''t1'')"]
    C7_save_without_id [OF h', of "accepting_backend (lit ''t1'')"] h h'
  show ?thesis
    by (simp add: outcome_defs prod_eq_iff)
qed

text \<open>
  C8, as written, has the second save write the record the first one wrote. The row
  carries \<^verbatim>\<open>updated_at: new Date().toISOString()\<close>, read anew by each call: two saves
  of the same fields, five seconds apart, against the accepting backend write two
  different rows.
\<close>

theorem C8_counterexample:
  "loaded_id (ready_State (u1_profile (Some (lit ''abc'')))) \<and>
   upserts (log_of (updateProfile (accepting_backend (lit ''2024-01-01T00:00:00.000Z''))
                      (ready_State (u1_profile (Some (lit ''abc'')))))) =
     [row_of (u1_profile (Some (lit ''abc''))) (lit ''2024-01-01T00:00:00.000Z'')] \<and>
   upserts (log_of (updateProfile (accepting_backend (lit ''2024-01-01T00:00:05.000Z''))
     (state_of (updateProfile (accepting_backend (lit ''2024-01-01T00:00:00.000Z''))
                  (ready_State (u1_profile (Some (lit ''abc'')))))))) =
     [row_of (u1_profile (Some (lit ''abc''))) (lit ''2024-01-01T00:00:05.000Z'')] \<and>
   row_of (u1_profile (Some (lit ''abc''))) (lit ''2024-01-01T00:00:05.000Z'') \<noteq>
     row_of (u1_profile (Some (lit ''abc''))) (lit ''2024-01-01T00:00:00.000Z'')"
  by (simp add: eval_defs)

text \<open>
  C8 (amended). Two saves in succession of the same field values, against a backend that
  accepts every upsert, both succeed and each writes one row; the two rows have the same
  \<^verbatim>\<open>id\<close>, \<^verbatim>\<open>full_name\<close>, \<^verbatim>\<open>username\<close>, \<^verbatim>\<open>website\<close> and \<^verbatim>\<open>bio\<close>, those of the profile, and
  each has as \<^verbatim>\<open>updated_at\<close> the time its own call read: the second row equals the first
  exactly when the two calls read the same time.
\<close>

theorem C8_repeated_save:
  assumes "profile s = Some p" and "id_prof p \<noteq> []" and "\<not> username_too_short p"
    and "\<forall>row. upsert env1 row = Resolved \<lparr>upsert_error = None\<rparr>"
    and "\<forall>row. upsert env2 row = Resolved \<lparr>upsert_error = None\<rparr>"
  shows "upserts (log_of (updateProfile env1 s)) = [row_of p (now env1)] \<and>
         upserts (log_of (updateProfile env2 (state_of (updateProfile env1 s)))) =
           [row_of p (now env2)] \<and>
         successMessage (state_of (updateProfile env1 s)) =
           Some (lit ''Profile updated successfully'') \<and>
         successMessage (state_of (updateProfile env2 (state_of (updateProfile env1 s)))) =
           Some (lit ''Profile updated successfully'') \<and>
         Profile.truncate (row_of p (now env1)) = p \<and>
         Profile.truncate (row_of p (now env2)) = p \<and>
         updated_at (row_of p (now env1)) = now env1 \<and>
         updated_at (row_of p (now env2)) = now env2 \<and>
         (row_of p (now env2) = row_of p (now env1) \<longleftrightarrow> now env2 = now env1)"
proof -
  let ?s1 = "state_of (updateProfile env1 s)"
  have p1: "profile ?s1 = Some p"
    using assms(1) by (simp add: profile_after_updateProfile)
  have a1: "upsert env1 (row_of p (now env1)) = Resolved \<lparr>upsert_error = None\<rparr>"
    and a2: "upsert env2 (row_of p (now env2)) = Resolved \<lparr>upsert_error = None\<rparr>"
    using assms(4,5) by simp_all
  have "upserts (log_of (updateProfile env1 s)) = [row_of p (now env1)]"
    using assms(1-3) by (simp add: upserts_of_attempt)
  moreover have "upserts (log_of (updateProfile env2 ?s1)) = [row_of p (now env2)]"
    using p1 assms(2,3) by (simp add: upserts_of_attempt)
  moreover have "successMessage ?s1 = Some (lit ''Profile updated successfully'')"
    using updateProfile_upsert_ok [OF assms(1-3) a1] by (simp add: state_of_def)
  moreover have "successMessage (state_of (updateProfile env2 ?s1)) =
      Some (lit ''Profile updated successfully'')"
    using updateProfile_upsert_ok [OF p1 assms(2,3) a2] by (simp add: state_of_def)
  moreover have "Profile.truncate (row_of p t) = p" for t
    by (simp add: row_of_def Profile.truncate_def)
  moreover have "row_of p t = row_of p t' \<longleftrightarrow> t = t'" for t t'
    by (simp add: row_of_def)
  ultimately show ?thesis
    by (simp add: row_of_def)
qed

text \<open>The amended C8 at the username \<^verbatim>\<open>abc\<close>, saved at \<^verbatim>\<open>t1\<close> and again at \<^verbatim>\<open>t2\<close>.\<close>

theorem C8_repeated_save_witness:
  "profile (ready_State (u1_profile (Some (lit ''abc'')))) =
     Some (u1_profile (Some (lit ''abc''))) \<and>
   id_prof (u1_profile (Some (lit ''abc''))) \<noteq> [] \<and>
   \<not> username_too_short (u1_profile (Some (lit ''abc''))) \<and>
   upsert (accepting_backend (lit ''t1'')) (row_of (u1_profile (Some (lit ''abc''))) (lit ''t1'')) =
     Resolved \<lparr>upsert_error = None\<rparr> \<and>
   upsert (accepting_backend (lit ''t2'')) (row_of (u1_profile (Some (lit ''abc''))) (lit ''t2'')) =
     Resolved \<lparr>upsert_error = None\<rparr> \<and>
   upserts (log_of (updateProfile (accepting_backend (lit ''t1''))
                      (ready_State (u1_profile (Some (lit ''abc'')))))) =
     [row_of (u1_profile (Some (lit ''abc''))) (lit ''t1'')] \<and>
   upserts (log_of (updateProfile (accepting_backend (lit ''t2''))
     (state_of (updateProfile (accepting_backend (lit ''t1''))
                  (ready_State (u1_profile (Some (lit ''abc'')))))))) =
     [row_of (u1_profile (Some (lit ''abc''))) (lit ''t2'')] \<and>
   row_of (u1_profile (Some (lit ''abc''))) (lit ''t2'') \<noteq>
     row_of (u1_profile (Some (lit ''abc''))) (lit ''t1'')"
proof -
  let ?p = "u1_profile (Some (lit ''abc''))"
  have h1: "profile (ready_State ?p) = Some ?p"
    and h2: "id_prof ?p \<noteq> []"
    and h3: "\<not> username_too_short ?p"
    and h4: "\<forall>row. upsert (accepting_backend (lit ''t1'')) row =
               Resolved \<lparr>upsert_error = None\<rparr>"
    and h5: "\<forall>row. upsert (accepting_backend (lit ''t2'')) row =
               Resolved \<lparr>upsert_error = None\<rparr>"
    by (simp_all add: sample_defs username_too_short_def lit_def)
  have t: "now (accepting_backend (lit ''t1'')) = lit ''t1''"
    "now (accepting_backend (lit ''t2'')) = lit ''t2''"
    "lit ''t2'' \<noteq> lit ''t1''"
    by (simp_all add: accepting_backend_def lit_def)
  from C8_repeated_save [OF h1 h2 h3 h4 h5] h1 h2 h3 h4 h5 t show ?thesis
    by simp
qed

text \<open>
  C9. After every save attempt with a loaded id (rejected by the local check, failed at
  the backend, or successful), the error message or the success message is \<^verbatim>\<open>null\<close>.
  Both are cleared at the start, so the attempt ends as it would from a state in which
  both were \<^verbatim>\<open>null\<close>, and it sets at most one of them.
\<close>

theorem C9_messages_exclusive:
  assumes "loaded_id s"
  shows "(error (state_of (updateProfile env s)) = None \<or>
          successMessage (state_of (updateProfile env s)) = None) \<and>
         updateProfile env s =
           updateProfile env (s\<lparr>error := None, successMessage := None\<rparr>)"
proof -
  from assms obtain p where p: "profile s = Some p" and i: "id_prof p \<noteq> []"
    by (auto simp: loaded_id_def split: option.splits)
  let ?s0 = "s\<lparr>error := None, successMessage := None\<rparr>"
  have p0: "profile ?s0 = Some p"
    using p by simp
  show ?thesis
  proof (cases "username_too_short p")
    case True
    then show ?thesis
      by (simp add: updateProfile_rejected_validation [OF p i]
          updateProfile_rejected_validation [OF p0 i] state_of_def)
  next
    case valid: False
    show ?thesis
    proof (cases "upsert env (row_of p (now env))")
      case (Rejected x)
      then show ?thesis
        by (simp add: updateProfile_upsert_rejects [OF p i valid]
            updateProfile_upsert_rejects [OF p0 i valid] state_of_def)
    next
      case (Resolved r)
      show ?thesis
      proof (cases "upsert_error r")
        case None
        then show ?thesis
          by (simp add: updateProfile_upsert_ok [OF p i valid Resolved]
              updateProfile_upsert_ok [OF p0 i valid Resolved] state_of_def)
      next
        case (Some e)
        then show ?thesis
          by (simp add: updateProfile_upsert_error [OF p i valid Resolved]
              updateProfile_upsert_error [OF p0 i valid Resolved] state_of_def)
      qed
    qed
  qed
qed

text \<open>
  C9 at a state that still shows the success message of an earlier save, with the
  username then shortened to \<^verbatim>\<open>ab\<close>: the new attempt leaves the error message alone.
\<close>

theorem C9_messages_exclusive_witness:
  "loaded_id ((ready_State (u1_profile (Some (lit ''ab''))))
                \<lparr>successMessage := Some (lit ''Profile updated successfully'')\<rparr>) \<and>
   state_of (updateProfile (accepting_backend (lit ''t1''))
     ((ready_State (u1_profile (Some (lit ''ab''))))
        \<lparr>successMessage := Some (lit ''Profile updated successfully'')\<rparr>)) =
     (ready_State (u1_profile (Some (lit ''ab''))))
        \<lparr>error := Some (lit ''Username must be at least 3 characters long'')\<rparr>"
proof -
  let ?s = "(ready_State (u1_profile (Some (lit ''ab''))))
              \<lparr>successMessage := Some (lit ''Profile updated successfully'')\<rparr>"
  have h: "loaded_id ?s"
    by (simp add: loaded_id_def sample_defs lit_def)
  from C9_messages_exclusive [OF h, of "accepting_backend (lit ''t1'')"] h show ?thesis
    by (simp add: eval_defs)
qed

section \<open>Claims about load\<close>

text \<open>
  What line 39 does with an answer that has neither data nor error: the fallback
  \<^verbatim>\<open>data || { id: user.id }\<close> seeds the profile with the session id.
\<close>

lemma fetchProfile_fallback:
  assumes "getUser env = Resolved a" and "data_user a = Some u"
    and "select_single env (user_id u) = Resolved r"
    and "data r = None" and "select_error r = None"
  shows "profile (state_of (fetchProfile env s)) = Some (fresh_profile (user_id u))"
  using assms by (simp add: fetchProfile_defs state_of_def)

text \<open>The answer of the single-row query for an id that has no row in the table.\<close>

lemma query_profile_no_row:
  assumes "\<forall>row \<in> set table. id_prof row \<noteq> i"
  shows "query_profile table i =
           Resolved \<lparr>data = None, select_error = Some no_single_row\<rparr>"
proof -
  from assms have "filter (\<lambda>row. id_prof row = i) table = []"
    by (simp add: filter_empty_conv)
  then show ?thesis
    by (simp add: query_profile_def single_def)
qed

text \<open>
  C2 does not hold of the code. For a session whose identity has no profile row, the
  query of line 36 ends in \<^verbatim>\<open>.single()\<close>, which reports the missing row as an error;
  line 38 throws it, so the fallback of line 39 is not reached: the load ends with the
  message \<^verbatim>\<open>Failed to load profile\<close> and the profile as it was, \<^verbatim>\<open>null\<close> in the state
  the component mounts with.
\<close>

theorem C2_load_without_row_fails:
  assumes "getUser env = Resolved a" and "data_user a = Some u"
    and "select_single env (user_id u) = query_profile table (user_id u)"
    and "\<forall>row \<in> set table. id_prof row \<noteq> user_id u"
  shows "completion_of (fetchProfile env s) = Normal \<and>
         profile (state_of (fetchProfile env s)) = profile s \<and>
         error (state_of (fetchProfile env s)) = Some (lit ''Failed to load profile'') \<and>
         log_of (fetchProfile env s) =
           [Auth_getUser, Select_profile (user_id u),
            Console_error (ThrownBackendError no_single_row)]"
  using assms(1,2) query_profile_no_row [OF assms(4)] assms(3)
  by (simp add: fetchProfile_defs outcome_defs)

text \<open>
  The failing session: user \<^verbatim>\<open>u1\<close> is signed in, the table has no row for \<^verbatim>\<open>u1\<close>, and
  the load starts from the initial state.
\<close>

theorem C2_load_without_row_fails_witness:
  "getUser new_user_backend =
     Resolved \<lparr>data_user = Some \<lparr>user_id = lit ''u1''\<rparr>, auth_error = None\<rparr> \<and>
   select_single new_user_backend (lit ''u1'') =
     query_profile [fresh_profile (lit ''u2'')] (lit ''u1'') \<and>
   id_prof (fresh_profile (lit ''u2'')) \<noteq> lit ''u1'' \<and>
   fetchProfile new_user_backend initial_State =
     (Normal,
      \<lparr>profile = None, isLoading = False, isSaving = False,
       error = Some (lit ''Failed to load profile''), successMessage = None\<rparr>,
      [Auth_getUser, Select_profile (lit ''u1''),
       Console_error (ThrownBackendError no_single_row)])"
proof -
  let ?a = "\<lparr>data_user = Some \<lparr>user_id = lit ''u1''\<rparr>, auth_error = None\<rparr>"
  have h1: "getUser new_user_backend = Resolved ?a"
    and h2: "data_user ?a = Some \<lparr>user_id = lit ''u1''\<rparr>"
    and h3: "select_single new_user_backend (user_id \<lparr>user_id = lit ''u1''\<rparr>) =
               query_profile [fresh_profile (lit ''u2'')] (user_id \<lparr>user_id = lit ''u1''\<rparr>)"
    and h4: "\<forall>row \<in> set [fresh_profile (lit ''u2'')].
               id_prof row \<noteq> user_id \<lparr>user_id = lit ''u1''\<rparr>"
    by (simp_all add: new_user_backend_def signed_in_u1_def fresh_profile_def lit_def)
  from C2_load_without_row_fails [OF h1 h2 h3 h4, of initial_State] h1 h3 h4
  show ?thesis
    by (simp add: eval_defs)
qed

text \<open>
  C5, as written, has every failure of the identity fetch end in the message
  \<^verbatim>\<open>Failed to load profile\<close>. The client reports such a failure in the \<^verbatim>\<open>error\<close>
  member of a response without user; line 26 reads \<^verbatim>\<open>data.user\<close> only, so the page
  takes the branch of line 27: it redirects to \<^verbatim>\<open>/auth\<close> and sets no message.
\<close>

theorem C5_counterexample:
  "identity_fetch_fails identity_error_backend \<and>
   fetchProfile identity_error_backend initial_State =
     (Return,
      \<lparr>profile = None, isLoading = False, isSaving = False, error = None,
       successMessage = None\<rparr>,
      [Auth_getUser, Router_push (lit ''/auth'')]) \<and>
   error (state_of (fetchProfile identity_error_backend initial_State)) \<noteq>
     Some (lit ''Failed to load profile'')"
  by (simp add: eval_defs)

text \<open>
  C5 (amended). Whatever the collaborators answer, \<^verbatim>\<open>fetchProfile\<close> ends with the
  loading flag \<^verbatim>\<open>false\<close> (after a success, a failure or the redirect) and lets no
  exception escape. When the identity fetch rejects, or the profile fetch rejects or
  answers with an error, the error message is \<^verbatim>\<open>Failed to load profile\<close>. When the
  identity fetch resolves without a user, also when its response carries an error, the
  page redirects to \<^verbatim>\<open>/auth\<close>, makes no further call and leaves the error message as
  it was.
\<close>

theorem C5_load_failure_caught:
  "isLoading (state_of (fetchProfile env s)) = False \<and>
   (\<forall>x. completion_of (fetchProfile env s) \<noteq> Throw x) \<and>
   (load_fails env \<longrightarrow>
      completion_of (fetchProfile env s) = Normal \<and>
      error (state_of (fetchProfile env s)) = Some (lit ''Failed to load profile'')) \<and>
   (\<forall>a. getUser env = Resolved a \<and> data_user a = None \<longrightarrow>
      completion_of (fetchProfile env s) = Return \<and>
      error (state_of (fetchProfile env s)) = error s \<and>
      log_of (fetchProfile env s) = [Auth_getUser, Router_push (lit ''/auth'')])"
  by (auto simp: load_fails_def fetchProfile_defs outcome_defs
      split: awaited.splits option.splits)

text \<open>
  The amended C5 at a session whose identity fetch rejects, at one whose profile query
  answers with an error, and at one whose identity fetch resolves with an error and no
  user, each loaded from the initial state.
\<close>

theorem C5_load_failure_caught_witness:
  "load_fails offline_backend \<and>
   fetchProfile offline_backend initial_State =
     (Normal,
      \<lparr>profile = None, isLoading = False, isSaving = False,
       error = Some (lit ''Failed to load profile''), successMessage = None\<rparr>,
      [Auth_getUser, Console_error (Rejection None)]) \<and>
   load_fails new_user_backend \<and>
   error (state_of (fetchProfile new_user_backend initial_State)) =
     Some (lit ''Failed to load profile'') \<and>
   getUser identity_error_backend =
     Resolved \<lparr>data_user = None,
               auth_error = Some \<lparr>auth_message = lit ''Failed to fetch''\<rparr>\<rparr> \<and>
   completion_of (fetchProfile identity_error_backend initial_State) = Return \<and>
   error (state_of (fetchProfile identity_error_backend initial_State)) = None"
proof -
  have f: "load_fails offline_backend"
    and g: "load_fails new_user_backend"
    and h: "getUser identity_error_backend =
              Resolved \<lparr>data_user = None,
                        auth_error = Some \<lparr>auth_message = lit ''Failed to fetch''\<rparr>\<rparr>"
    by (simp_all add: sample_defs client_defs load_fails_def lit_def)
  from C5_load_failure_caught [of offline_backend initial_State]
    C5_load_failure_caught [of new_user_backend initial_State]
    C5_load_failure_caught [of identity_error_backend initial_State] f g h
  show ?thesis
    by (simp add: eval_defs)
qed



end
